theory Spec2Isabelle
  imports Complex_Main
begin

section \<open>The booking service of book-it-api\<close>

text \<open>
  A shallow embedding of \<^verbatim>\<open>src/booking/booking.service.ts\<close>. The Prisma store
  behind \<^verbatim>\<open>this.prisma\<close> is a record of four tables, each a list of rows; every
  service method takes the store and returns the response it sends together with the
  store it leaves behind. Store calls themselves are taken to succeed (no connection
  failures); the exceptions the service code itself raises, reading a property of
  \<^verbatim>\<open>null\<close>, are branches of the model that end in the \<^verbatim>\<open>catch\<close> block.

  Room counts and prices are integers that a JavaScript number holds exactly (below
  \<open>2^53\<close> in magnitude), and sums and differences of room counts are exact. Dates are
  valid \<^verbatim>\<open>Date\<close> values, given by their epoch time in milliseconds, the value of
  \<^verbatim>\<open>Date.getTime()\<close> (at most 8640000000000000 in magnitude); an invalid date,
  whose time is \<^verbatim>\<open>NaN\<close>, is not a value of the model. The number of nights and the
  cost are computed as the source computes them, in double precision: the subtraction,
  the division and the multiplications there are each rounded to the nearest double.
\<close>

subsection \<open>Data model\<close>

text \<open>Rows carry the fields the service reads or writes.\<close>

record user =
  user_id :: string

record hotel =
  hotel_id :: string

record room =
  room_id :: string
  room_hotelId :: string
  price :: int
  numberAvailable :: int

record booking =
  booking_id :: string
  userId :: string
  roomId :: string
  hotelId :: string
  checkInDate :: int
  checkOutDate :: int
  numberOfRooms :: int
  cost :: int
  createdAt :: int
  updatedAt :: int

text \<open>\<^verbatim>\<open>CreateBookingDto\<close> and \<^verbatim>\<open>UpdateBookingDto\<close>: the four fields the service reads.\<close>

record bookingDto =
  dto_roomId :: string
  dto_checkInDate :: int
  dto_checkOutDate :: int
  dto_numberOfRooms :: int

record store =
  users :: "user list"
  hotels :: "hotel list"
  rooms :: "room list"
  bookings :: "booking list"

text \<open>
  The three responses of \<^verbatim>\<open>HelpersService.ResponseHandler\<close>: success with a message
  and an optional payload, a client error and a server error with their messages.
\<close>

datatype 'p response =
    RequestSuccessful string "'p option"
  | ClientError string
  | ServerError string

text \<open>A JavaScript object returned as payload: its properties and their values.\<close>

datatype jsval =
    JString string
  | JNumber int
  | JHotel "hotel option"
  | JRoom "room option"

type_synonym jsobject = "(string \<times> jsval) list"

subsection \<open>Store operations\<close>

definition user_findUnique :: "store \<Rightarrow> string \<Rightarrow> user option" where
  "user_findUnique s i = find (\<lambda>u. user_id u = i) (users s)"

definition hotel_findUnique :: "store \<Rightarrow> string \<Rightarrow> hotel option" where
  "hotel_findUnique s i = find (\<lambda>h. hotel_id h = i) (hotels s)"

definition room_findUnique :: "store \<Rightarrow> string \<Rightarrow> room option" where
  "room_findUnique s i = find (\<lambda>r. room_id r = i) (rooms s)"

definition booking_findUnique :: "store \<Rightarrow> string \<Rightarrow> booking option" where
  "booking_findUnique s i = find (\<lambda>b. booking_id b = i) (bookings s)"

definition booking_findMany :: "store \<Rightarrow> string \<Rightarrow> booking list" where
  "booking_findMany s uid = filter (\<lambda>b. userId b = uid) (bookings s)"

text \<open>\<^verbatim>\<open>prisma.booking.create\<close>: the new row is appended to the table.\<close>

definition booking_create :: "store \<Rightarrow> booking \<Rightarrow> store" where
  "booking_create s b = s\<lparr>bookings := bookings s @ [b]\<rparr>"

text \<open>\<^verbatim>\<open>prisma.room.update\<close> with \<^verbatim>\<open>data: { numberAvailable: n }\<close>: an absolute write.\<close>

definition room_update :: "store \<Rightarrow> string \<Rightarrow> int \<Rightarrow> store" where
  "room_update s i n =
     s\<lparr>rooms := map (\<lambda>r. if room_id r = i then r\<lparr>numberAvailable := n\<rparr> else r) (rooms s)\<rparr>"

text \<open>\<^verbatim>\<open>prisma.booking.update\<close> with \<^verbatim>\<open>data: { ...dto, cost }\<close>.\<close>

definition booking_update :: "store \<Rightarrow> string \<Rightarrow> bookingDto \<Rightarrow> int \<Rightarrow> int \<Rightarrow> store" where
  "booking_update s i dto c now =
     s\<lparr>bookings := map (\<lambda>b. if booking_id b = i
                              then b\<lparr>roomId := dto_roomId dto,
                                     checkInDate := dto_checkInDate dto,
                                     checkOutDate := dto_checkOutDate dto,
                                     numberOfRooms := dto_numberOfRooms dto,
                                     cost := c,
                                     updatedAt := now\<rparr>
                              else b) (bookings s)\<rparr>"

definition booking_delete :: "store \<Rightarrow> string \<Rightarrow> store" where
  "booking_delete s i = s\<lparr>bookings := filter (\<lambda>b. booking_id b \<noteq> i) (bookings s)\<rparr>"

definition booking_deleteMany :: "store \<Rightarrow> string \<Rightarrow> store" where
  "booking_deleteMany s uid = s\<lparr>bookings := filter (\<lambda>b. userId b \<noteq> uid) (bookings s)\<rparr>"

subsection \<open>JavaScript numbers\<close>

text \<open>
  A finite double is a rational number with a significand of 53 bits. \<open>to_double\<close>
  rounds a rational number to the nearest double, a tie going to the even significand
  (the rounding of every arithmetic operation of the language). The binary exponent of
  a positive number \<open>x\<close> is the \<open>e\<close> with \<open>2^e \<le> x < 2^(e+1)\<close>; below \<open>2^-1022\<close> the
  doubles are spaced evenly. Overflow to \<^verbatim>\<open>Infinity\<close>, at a magnitude of \<open>2^1024\<close>,
  is not modelled: no difference of two dates and no product of a number of nights, a
  room count and a price reaches it.
\<close>

function bit_length :: "int \<Rightarrow> nat" where
  "bit_length n = (if n \<le> 0 then 0 else Suc (bit_length (n div 2)))"
  by pat_completeness auto
termination
  by (relation "measure nat") auto

declare bit_length.simps [simp del]

definition binary_exponent :: "rat \<Rightarrow> int" where
  "binary_exponent x =
     (if 1 \<le> x then int (bit_length \<lfloor>x\<rfloor>) - 1
      else - int (bit_length (\<lceil>1 / x\<rceil> - 1)))"

definition round_ties_even :: "rat \<Rightarrow> int" where
  "round_ties_even x =
     (let f = \<lfloor>x\<rfloor>; r = x - of_int f
      in if r < 1 / 2 then f else if 1 / 2 < r then f + 1 else if even f then f else f + 1)"

definition to_double :: "rat \<Rightarrow> rat" where
  "to_double x =
     (if x = 0 then 0
      else (let e = max (binary_exponent \<bar>x\<bar>) (- 1022);
                ulp = 2 powi (e - 52)
            in of_int (round_ties_even (x / ulp)) * ulp))"

text \<open>
  The product of two integers as the language computes it. The double nearest to an
  integer is an integer itself (\<open>to_double_of_int_integral\<close> below), which \<open>js_times\<close>
  returns.
\<close>

definition js_times :: "int \<Rightarrow> int \<Rightarrow> int" where
  "js_times a b = \<lfloor>to_double (of_int a * of_int b)\<rfloor>"

subsection \<open>Cost calculation\<close>

definition oneDay :: int where
  "oneDay = 24 * 60 * 60 * 1000"

text \<open>
  \<^verbatim>\<open>Math.round\<close>: the integer nearest to a double, a tie going up. It is exact.
\<close>

definition math_round :: "rat \<Rightarrow> int" where
  "math_round x = \<lfloor>x + 1 / 2\<rfloor>"

text \<open>
  \<^verbatim>\<open>getNumberOfNights\<close>: the difference of the two times is rounded to a double, and
  so is its quotient by \<^verbatim>\<open>oneDay\<close>.
\<close>

definition getNumberOfNights :: "int \<Rightarrow> int \<Rightarrow> int" where
  "getNumberOfNights checkIn checkOut =
     (let startDate = checkIn; endDate = checkOut;
          diffDays = math_round
            \<bar>to_double (to_double (of_int startDate - of_int endDate) / of_int oneDay)\<bar>
      in diffDays)"

subsection \<open>Service methods\<close>

text \<open>
  \<^verbatim>\<open>createBooking\<close>. The arguments \<open>newId\<close> and \<open>now\<close> are the identifier and the
  timestamp the store gives the new row. When \<^verbatim>\<open>room\<close> is \<^verbatim>\<open>null\<close> the guard
  \<^verbatim>\<open>!user && room\<close> is false, and reading \<^verbatim>\<open>room.numberAvailable\<close> throws into the
  \<^verbatim>\<open>catch\<close> block.
\<close>

definition createBooking ::
  "store \<Rightarrow> string \<Rightarrow> int \<Rightarrow> string \<Rightarrow> bookingDto \<Rightarrow> unit response \<times> store" where
  "createBooking s newId now uid dto =
     (let user = user_findUnique s uid;
          room = room_findUnique s (dto_roomId dto)
      in if user = None \<and> room \<noteq> None
         then (ClientError ''User or room does not exist.'', s)
         else (case room of
                 None \<Rightarrow> (ServerError ''Error creating booking'', s)
               | Some r \<Rightarrow>
                   if dto_numberOfRooms dto < numberAvailable r
                   then (let numberOfNights =
                               getNumberOfNights (dto_checkInDate dto) (dto_checkOutDate dto);
                             c = js_times (js_times numberOfNights (dto_numberOfRooms dto))
                                   (price r)
                         in case user of
                              None \<Rightarrow> (ServerError ''Error creating booking'', s)
                            | Some u \<Rightarrow>
                                (let s1 = booking_create s
                                            \<lparr>booking_id = newId,
                                             userId = user_id u,
                                             roomId = room_id r,
                                             hotelId = room_hotelId r,
                                             checkInDate = dto_checkInDate dto,
                                             checkOutDate = dto_checkOutDate dto,
                                             numberOfRooms = dto_numberOfRooms dto,
                                             cost = c,
                                             createdAt = now,
                                             updatedAt = now\<rparr>;
                                     s2 = room_update s1 (room_id r)
                                            (numberAvailable r - dto_numberOfRooms dto)
                                 in (RequestSuccessful ''Booking created successfully'' None, s2)))
                   else (ClientError
                           ''The number of available rooms is less than your desired booking'',
                         s)))"

text \<open>
  \<^verbatim>\<open>updateBookingById\<close>. The parameter \<open>uid\<close> is unused, as in the source. With the
  booking found and \<^verbatim>\<open>room\<close> \<^verbatim>\<open>null\<close>, reading \<^verbatim>\<open>room.price\<close> throws.
\<close>

definition updateBookingById ::
  "store \<Rightarrow> int \<Rightarrow> string \<Rightarrow> string \<Rightarrow> bookingDto \<Rightarrow> unit response \<times> store" where
  "updateBookingById s now bookingId uid dto =
     (let bookingRow = booking_findUnique s bookingId;
          room = room_findUnique s (dto_roomId dto)
      in case bookingRow of
           None \<Rightarrow> (ClientError ''Booking does not exist'', s)
         | Some b \<Rightarrow>
             (case room of
                None \<Rightarrow> (ServerError ''Error updating booking details'', s)
              | Some r \<Rightarrow>
                  (let newNumberOfNights =
                         getNumberOfNights (dto_checkInDate dto) (dto_checkOutDate dto);
                       newCost = js_times (js_times newNumberOfNights (dto_numberOfRooms dto))
                                   (price r);
                       s1 = room_update s (room_id r)
                              (numberAvailable r + numberOfRooms b - dto_numberOfRooms dto);
                       s2 = booking_update s1 bookingId dto newCost now
                   in (RequestSuccessful ''Booking updated successfully'' None, s2))))"

text \<open>
  \<^verbatim>\<open>getAllBookingsByUser\<close>: each row found is returned as an object with the hotel and
  the room it refers to included, and five of its properties deleted.
\<close>

definition booking_object :: "store \<Rightarrow> booking \<Rightarrow> jsobject" where
  "booking_object s b =
     [(''id'', JString (booking_id b)),
      (''userId'', JString (userId b)),
      (''roomId'', JString (roomId b)),
      (''hotelId'', JString (hotelId b)),
      (''checkInDate'', JNumber (checkInDate b)),
      (''checkOutDate'', JNumber (checkOutDate b)),
      (''numberOfRooms'', JNumber (numberOfRooms b)),
      (''cost'', JNumber (cost b)),
      (''createdAt'', JNumber (createdAt b)),
      (''updatedAt'', JNumber (updatedAt b)),
      (''hotel'', JHotel (hotel_findUnique s (hotelId b))),
      (''room'', JRoom (room_findUnique s (roomId b)))]"

definition delete_property :: "string \<Rightarrow> jsobject \<Rightarrow> jsobject" where
  "delete_property k obj = filter (\<lambda>kv. fst kv \<noteq> k) obj"

definition getAllBookingsByUser :: "store \<Rightarrow> string \<Rightarrow> jsobject list response" where
  "getAllBookingsByUser s uid =
     (case user_findUnique s uid of
        None \<Rightarrow> ClientError ''User does not exist''
      | Some u \<Rightarrow>
          (let found = map (booking_object s) (booking_findMany s uid)
           in if length found > 0
              then RequestSuccessful ''Bookings retrieved successfully''
                     (Some (map (delete_property ''userId''
                                 \<circ> delete_property ''updatedAt''
                                 \<circ> delete_property ''createdAt''
                                 \<circ> delete_property ''roomId''
                                 \<circ> delete_property ''hotelId'') found))
              else ClientError ''You don't have any bookings''))"

definition deleteBookingById :: "store \<Rightarrow> string \<Rightarrow> unit response \<times> store" where
  "deleteBookingById s i =
     (case booking_findUnique s i of
        None \<Rightarrow> (ClientError ''Booking does not exist'', s)
      | Some b \<Rightarrow>
          (RequestSuccessful ''Booking deleted successfully'' None, booking_delete s i))"

definition deleteAllBookings :: "store \<Rightarrow> string \<Rightarrow> unit response \<times> store" where
  "deleteAllBookings s uid =
     (case user_findUnique s uid of
        None \<Rightarrow> (ClientError ''User does not exist'', s)
      | Some u \<Rightarrow>
          (let found = booking_findMany s uid
           in if length found < 1
              then (ClientError ''You don't have any bookings'', s)
              else (RequestSuccessful ''Bookings deleted successfully'' None,
                    booking_deleteMany s uid)))"

subsection \<open>Example stores\<close>

text \<open>
  One hotel, one room priced at 100 a night, two users, and a booking of user \<open>u1\<close> for
  the three nights from 2024-01-01 to 2024-01-04 (UTC midnights, in milliseconds).
\<close>

definition demo_room :: "int \<Rightarrow> room" where
  "demo_room n = \<lparr>room_id = ''r1'', room_hotelId = ''h1'', price = 100, numberAvailable = n\<rparr>"

definition demo_booking :: "int \<Rightarrow> booking" where
  "demo_booking n =
     \<lparr>booking_id = ''b1'', userId = ''u1'', roomId = ''r1'', hotelId = ''h1'',
      checkInDate = 1704067200000, checkOutDate = 1704326400000,
      numberOfRooms = n, cost = 300 * n, createdAt = 0, updatedAt = 0\<rparr>"

definition demo_store :: "int \<Rightarrow> booking list \<Rightarrow> store" where
  "demo_store n bs =
     \<lparr>users = [\<lparr>user_id = ''u1''\<rparr>, \<lparr>user_id = ''u2''\<rparr>], hotels = [\<lparr>hotel_id = ''h1''\<rparr>],
      rooms = [demo_room n], bookings = bs\<rparr>"

definition demo_dto :: "string \<Rightarrow> int \<Rightarrow> int \<Rightarrow> int \<Rightarrow> bookingDto" where
  "demo_dto rid ci co n =
     \<lparr>dto_roomId = rid, dto_checkInDate = ci, dto_checkOutDate = co, dto_numberOfRooms = n\<rparr>"


subsection \<open>The availability ledger\<close>

text \<open>
  The rooms reserved on a room by the bookings that refer to it; the ledger equation for a
  capacity given per room; and the availability of every room being non-negative.
\<close>

definition bookedRooms :: "store \<Rightarrow> string \<Rightarrow> int" where
  "bookedRooms s rid = sum_list (map numberOfRooms (filter (\<lambda>b. roomId b = rid) (bookings s)))"

definition ledgerHolds :: "store \<Rightarrow> (string \<Rightarrow> int) \<Rightarrow> bool" where
  "ledgerHolds s capacity =
     list_all (\<lambda>r. numberAvailable r + bookedRooms s (room_id r) = capacity (room_id r)) (rooms s)"

definition availabilityNonNegative :: "store \<Rightarrow> bool" where
  "availabilityNonNegative s = list_all (\<lambda>r. 0 \<le> numberAvailable r) (rooms s)"

section \<open>Properties\<close>

subsection \<open>Unfolding the stores\<close>

lemmas demo_defs = demo_store_def demo_room_def demo_booking_def demo_dto_def
lemmas store_defs = user_findUnique_def room_findUnique_def booking_findUnique_def
  hotel_findUnique_def booking_findMany_def booking_create_def room_update_def
  booking_update_def booking_delete_def booking_deleteMany_def

subsection \<open>Rounding to a double\<close>

lemma bit_length_pos: "0 < n \<Longrightarrow> 0 < bit_length n"
  by (subst bit_length.simps) simp

lemma bit_length_bounds:
  "0 < n \<Longrightarrow> 2 ^ (bit_length n - 1) \<le> n \<and> n < 2 ^ bit_length n"
proof (induction n rule: bit_length.induct)
  case (1 n)
  show ?case
  proof (cases "n = 1")
    case True
    then show ?thesis
      by (simp add: bit_length.simps [of 1] bit_length.simps [of 0])
  next
    case False
    with "1.prems" have half: "0 < n div 2" by simp
    have bl: "bit_length n = Suc (bit_length (n div 2))"
      using "1.prems" by (subst bit_length.simps) simp
    from "1.IH" half "1.prems"
    have ih: "2 ^ (bit_length (n div 2) - 1) \<le> n div 2" "n div 2 < 2 ^ bit_length (n div 2)"
      by simp_all
    from bit_length_pos [OF half] obtain k where k: "bit_length (n div 2) = Suc k"
      by (cases "bit_length (n div 2)") simp_all
    from ih k have "2 * 2 ^ k \<le> n" "n < 2 * 2 ^ Suc k"
      by simp_all
    then show ?thesis by (simp add: bl k)
  qed
qed

lemma binary_exponent_le:
  assumes "0 < x"
  shows "2 powi binary_exponent x \<le> x"
proof (cases "1 \<le> x")
  case True
  then have n: "0 < \<lfloor>x\<rfloor>" by simp
  from bit_length_pos [OF n] obtain k where k: "bit_length \<lfloor>x\<rfloor> = Suc k"
    by (cases "bit_length \<lfloor>x\<rfloor>") simp_all
  from bit_length_bounds [OF n] k have "2 ^ k \<le> \<lfloor>x\<rfloor>" by simp
  then have "(of_int (2 ^ k) :: rat) \<le> of_int \<lfloor>x\<rfloor>" by (simp only: of_int_le_iff)
  also have "\<dots> \<le> x" by simp
  finally show ?thesis using True by (simp add: binary_exponent_def k)
next
  case False
  define c where "c = \<lceil>1 / x\<rceil> - 1"
  from False assms have "1 < 1 / x" by simp
  then have "1 < \<lceil>1 / x\<rceil>" by (simp add: less_ceiling_iff)
  then have c: "0 < c" by (simp add: c_def)
  from bit_length_bounds [OF c] have "c + 1 \<le> 2 ^ bit_length c" by simp
  then have "\<lceil>1 / x\<rceil> \<le> 2 ^ bit_length c" by (simp add: c_def)
  then have "1 / x \<le> of_int (2 ^ bit_length c)" by (simp only: ceiling_le_iff)
  then have "1 / x \<le> 2 ^ bit_length c" by simp
  then have "1 / 2 ^ bit_length c \<le> x"
    using assms by (simp add: field_simps)
  then show ?thesis
    using False by (simp add: binary_exponent_def c_def power_int_minus divide_simps)
qed

lemma binary_exponent_less:
  assumes "0 < x" and "x < 2 powi j"
  shows "binary_exponent x < j"
proof (rule ccontr)
  assume "\<not> binary_exponent x < j"
  then have "(2::rat) powi j \<le> 2 powi binary_exponent x"
    by (intro power_int_increasing) simp_all
  with binary_exponent_le [OF assms(1)] assms(2) show False by simp
qed

lemma round_ties_even_of_int [simp]: "round_ties_even (of_int m) = m"
  by (simp add: round_ties_even_def)

lemma round_ties_even_close: "\<bar>of_int (round_ties_even y) - y\<bar> \<le> 1 / 2"
proof -
  have "of_int \<lfloor>y\<rfloor> \<le> y" "y < of_int \<lfloor>y\<rfloor> + 1"
    by linarith+
  then show ?thesis
    unfolding round_ties_even_def Let_def by (simp split: if_split)
qed

lemma to_double_exact:
  assumes m: "x * 2 ^ k = of_int m" and k: "k \<le> 53" and small: "\<bar>x\<bar> < 2 ^ (53 - k)"
  shows "to_double x = x"
proof (cases "x = 0")
  case True
  then show ?thesis by (simp add: to_double_def)
next
  case False
  define e where "e = max (binary_exponent \<bar>x\<bar>) (- 1022)"
  have "\<bar>x\<bar> < 2 powi (int (53 - k))" using small by simp
  with False have "binary_exponent \<bar>x\<bar> < int (53 - k)"
    by (intro binary_exponent_less) simp_all
  with k have e: "e \<le> 52 - int k" by (simp add: e_def)
  define j where "j = nat (52 - int k - e)"
  have ek: "52 - e = int k + int j" using e by (simp add: j_def)
  have "x / 2 powi (e - 52) = x * 2 powi (52 - e)"
    by (simp add: power_int_diff)
  also have "\<dots> = x * 2 ^ k * 2 ^ j"
    by (simp add: ek power_int_add)
  also have "\<dots> = of_int (m * 2 ^ j)" by (simp add: m)
  finally have q: "x / 2 powi (e - 52) = of_int (m * 2 ^ j)" .
  have "to_double x = of_int (round_ties_even (x / 2 powi (e - 52))) * 2 powi (e - 52)"
    using False by (simp add: to_double_def e_def Let_def)
  also have "\<dots> = x / 2 powi (e - 52) * 2 powi (e - 52)"
    by (simp only: q round_ties_even_of_int)
  also have "\<dots> = x" by simp
  finally show ?thesis .
qed

lemma to_double_of_int:
  assumes "\<bar>a\<bar> < 2 ^ 53"
  shows "to_double (of_int a) = of_int a"
proof -
  have "\<bar>of_int a :: rat\<bar> < of_int (2 ^ 53)"
    using assms by (simp only: of_int_abs [symmetric] of_int_less_iff)
  then show ?thesis
    using to_double_exact [of "of_int a" 0 a] by simp
qed

lemma to_double_close:
  assumes "\<bar>x\<bar> < 2 powi j" and "- 1021 \<le> j"
  shows "\<bar>to_double x - x\<bar> \<le> 2 powi (j - 54)"
proof (cases "x = 0")
  case True
  then show ?thesis by (simp add: to_double_def)
next
  case False
  define e where "e = max (binary_exponent \<bar>x\<bar>) (- 1022)"
  define u :: rat where "u = 2 powi (e - 52)"
  from False assms(1) have "binary_exponent \<bar>x\<bar> < j"
    by (intro binary_exponent_less) simp_all
  with assms(2) have e: "e - 52 \<le> j - 53" by (simp add: e_def)
  have u_pos: "0 < u" by (simp add: u_def)
  have u_le: "u \<le> 2 powi (j - 53)"
    unfolding u_def using e by (intro power_int_increasing) simp_all
  have td: "to_double x = of_int (round_ties_even (x / u)) * u"
    using False by (simp add: to_double_def e_def u_def Let_def)
  have "to_double x - x = (of_int (round_ties_even (x / u)) - x / u) * u"
    using u_pos by (simp add: td field_simps)
  then have "\<bar>to_double x - x\<bar> = \<bar>of_int (round_ties_even (x / u)) - x / u\<bar> * u"
    using u_pos by (simp add: abs_mult)
  also have "\<dots> \<le> 1 / 2 * u"
    using u_pos round_ties_even_close [of "x / u"] by (intro mult_right_mono) simp_all
  also have "\<dots> \<le> 1 / 2 * 2 powi (j - 53)"
    using u_le by simp
  also have "\<dots> = 2 powi (j - 54)"
    by (simp add: power_int_diff)
  finally show ?thesis .
qed

lemma to_double_zero [simp]: "to_double 0 = 0"
  by (simp add: to_double_def)

lemma to_double_of_int_integral: "of_int \<lfloor>to_double (of_int a)\<rfloor> = to_double (of_int a)"
proof -
  have "\<exists>m. to_double (of_int a) = of_int m"
  proof (cases "a = 0")
    case True
    then have "to_double (of_int a) = of_int 0" by (simp add: to_double_def)
    then show ?thesis ..
  next
    case False
    define e where "e = max (binary_exponent \<bar>rat_of_int a\<bar>) (- 1022)"
    have td: "to_double (of_int a)
                = of_int (round_ties_even (of_int a / 2 powi (e - 52))) * 2 powi (e - 52)"
      using False by (simp add: to_double_def e_def Let_def)
    show ?thesis
    proof (cases "e \<le> 52")
      case True
      define j where "j = nat (52 - e)"
      have "rat_of_int a / 2 powi (e - 52) = of_int a * 2 powi (int j)"
        using True by (simp add: j_def power_int_diff)
      also have "\<dots> = of_int (a * 2 ^ j)" by simp
      finally have "to_double (of_int a) = of_int (a * 2 ^ j) * 2 powi (e - 52)"
        by (simp only: td round_ties_even_of_int)
      also have "\<dots> = of_int a * (2 powi (int j) * 2 powi (e - 52))" by simp
      also have "2 powi (int j) * 2 powi (e - 52) = (1::rat)"
        using True by (simp add: j_def flip: power_int_add)
      finally have "to_double (of_int a) = of_int a" by simp
      then show ?thesis ..
    next
      case False
      define j where "j = nat (e - 52)"
      have "(2::rat) powi (e - 52) = 2 powi (int j)" using False by (simp add: j_def)
      then have "(2::rat) powi (e - 52) = of_int (2 ^ j)" by simp
      then have "to_double (of_int a)
                   = of_int (round_ties_even (of_int a / 2 powi (e - 52)) * 2 ^ j)"
        by (simp add: td)
      then show ?thesis ..
    qed
  qed
  then obtain m where "to_double (of_int a) = of_int m" ..
  then show ?thesis by simp
qed

lemma of_int_js_times: "of_int (js_times a b) = to_double (of_int a * of_int b)"
  using to_double_of_int_integral [of "a * b"] by (simp add: js_times_def)

lemma js_times_exact:
  assumes "\<bar>a * b\<bar> < 2 ^ 53"
  shows "js_times a b = a * b"
proof -
  have "to_double (of_int a * of_int b) = of_int (a * b)"
    using to_double_of_int [OF assms] by simp
  then show ?thesis by (simp only: js_times_def floor_of_int)
qed

lemma js_times_product:
  assumes "\<bar>a * b * c\<bar> < 2 ^ 53"
  shows "js_times (js_times a b) c = a * b * c"
proof (cases "c = 0")
  case True
  then show ?thesis by (simp add: js_times_exact)
next
  case False
  then have "1 \<le> \<bar>c\<bar>" by simp
  then have "\<bar>a * b\<bar> * 1 \<le> \<bar>a * b\<bar> * \<bar>c\<bar>"
    by (intro mult_left_mono) simp_all
  with assms have "\<bar>a * b\<bar> < 2 ^ 53" by (simp add: abs_mult)
  with assms show ?thesis by (simp add: js_times_exact)
qed

subsection \<open>The number of nights\<close>

lemma math_round_nonneg: "0 \<le> x \<Longrightarrow> 0 \<le> math_round x"
  unfolding math_round_def by simp

lemma getNumberOfNights_exact:
  assumes range: "\<bar>checkIn - checkOut\<bar> < 2 ^ 26 * oneDay"
  shows "getNumberOfNights checkIn checkOut
           = \<lfloor>\<bar>rat_of_int (checkIn - checkOut)\<bar> / rat_of_int oneDay + 1 / 2\<rfloor>"
proof -
  define d where "d = checkIn - checkOut"
  define q :: rat where "q = of_int d / 86400000"
  define K where "K = \<lfloor>\<bar>q\<bar> + 1 / 2\<rfloor>"
  have d_small: "\<bar>d\<bar> < 5798205849600000"
    using range by (simp add: d_def oneDay_def)
  then have "\<bar>d\<bar> < 2 ^ 53" by simp
  then have sub: "to_double (of_int checkIn - of_int checkOut) = of_int d"
    using to_double_of_int [of d] by (simp add: d_def)
  have q_abs: "\<bar>q\<bar> = of_int \<bar>d\<bar> / 86400000" by (simp add: q_def)
  have "rat_of_int \<bar>d\<bar> < of_int 5798205849600000"
    using d_small by (simp only: of_int_less_iff)
  then have q_small: "\<bar>q\<bar> < 67108864" by (simp add: q_abs)
  have K_lo: "of_int K - 1 / 2 \<le> \<bar>q\<bar>" and K_hi: "\<bar>q\<bar> < of_int K + 1 / 2"
    unfolding K_def by linarith+
  have "\<lfloor>\<bar>to_double q\<bar> + 1 / 2\<rfloor> = K"
  proof (cases "86400000 dvd 2 * d")
    case True
    then obtain m where m: "2 * d = 86400000 * m" ..
    then have "rat_of_int (2 * d) = of_int (86400000 * m)" by simp
    then have half: "q * 2 ^ 1 = of_int m" by (simp add: q_def)
    have small: "\<bar>q\<bar> < 2 ^ (53 - 1)" using q_small by simp
    have "to_double q = q" by (rule to_double_exact [OF half _ small]) simp
    then show ?thesis by (simp add: K_def)
  next
    case False
    then have ndvd: "\<not> 86400000 dvd 2 * \<bar>d\<bar>" by (simp add: abs_if)
    have lo_int: "(2 * K - 1) * 86400000 \<le> 2 * \<bar>d\<bar>"
    proof -
      have "rat_of_int ((2 * K - 1) * 86400000) \<le> of_int (2 * \<bar>d\<bar>)"
        using K_lo by (simp add: q_abs field_simps)
      then show ?thesis by (simp only: of_int_le_iff)
    qed
    have hi_int: "2 * \<bar>d\<bar> < (2 * K + 1) * 86400000"
    proof -
      have "rat_of_int (2 * \<bar>d\<bar>) < of_int ((2 * K + 1) * 86400000)"
        using K_hi by (simp add: q_abs field_simps)
      then show ?thesis by (simp only: of_int_less_iff)
    qed
    have "(2 * K - 1) * 86400000 \<noteq> 2 * \<bar>d\<bar>"
      using ndvd by (metis dvd_triv_right)
    with lo_int have "(2 * K - 1) * 86400000 + 1 \<le> 2 * \<bar>d\<bar>" by simp
    then have "rat_of_int ((2 * K - 1) * 86400000 + 1) \<le> of_int (2 * \<bar>d\<bar>)"
      by (simp only: of_int_le_iff)
    then have lo: "of_int K - 1 / 2 + 1 / 172800000 \<le> \<bar>q\<bar>"
      by (simp add: q_abs field_simps)
    from hi_int have "2 * \<bar>d\<bar> + 1 \<le> (2 * K + 1) * 86400000" by simp
    then have "rat_of_int (2 * \<bar>d\<bar> + 1) \<le> of_int ((2 * K + 1) * 86400000)"
      by (simp only: of_int_le_iff)
    then have hi: "\<bar>q\<bar> \<le> of_int K + 1 / 2 - 1 / 172800000"
      by (simp add: q_abs field_simps)
    have "\<bar>q\<bar> < 2 powi 26" using q_small by simp
    then have "\<bar>to_double q - q\<bar> \<le> 2 powi (26 - 54)"
      by (rule to_double_close) simp
    then have close: "\<bar>to_double q - q\<bar> \<le> 1 / 268435456"
      by (simp add: power_int_minus)
    have "\<bar>\<bar>to_double q\<bar> - \<bar>q\<bar>\<bar> \<le> \<bar>to_double q - q\<bar>"
      by (rule abs_triangle_ineq3)
    with close lo hi
    have "of_int K \<le> \<bar>to_double q\<bar> + 1 / 2" "\<bar>to_double q\<bar> + 1 / 2 < of_int K + 1"
      by linarith+
    then show ?thesis by (rule floor_unique)
  qed
  then show ?thesis
    by (simp add: getNumberOfNights_def math_round_def sub K_def q_def d_def oneDay_def)
qed

lemma getNumberOfNights_div:
  assumes "\<bar>a - b\<bar> < 2 ^ 26 * oneDay"
  shows "getNumberOfNights a b = (2 * \<bar>a - b\<bar> + oneDay) div (2 * oneDay)"
proof -
  have pos: "(0::rat) < of_int oneDay" by (simp add: oneDay_def)
  have "\<bar>rat_of_int (a - b)\<bar> / of_int oneDay + 1 / 2
          = of_int (2 * \<bar>a - b\<bar> + oneDay) / of_int (2 * oneDay)"
    using pos by (simp add: field_simps)
  then show ?thesis
    by (simp only: getNumberOfNights_exact [OF assms] floor_divide_of_int_eq)
qed


lemma getNumberOfNights_commute:
  assumes "\<bar>a - b\<bar> < 2 ^ 26 * oneDay"
  shows "getNumberOfNights a b = getNumberOfNights b a"
proof -
  from assms have "\<bar>b - a\<bar> < 2 ^ 26 * oneDay" by (simp add: abs_minus_commute)
  then show ?thesis
    by (simp add: getNumberOfNights_div assms abs_minus_commute)
qed


lemma getNumberOfNights_nonneg: "0 \<le> getNumberOfNights a b"
  unfolding getNumberOfNights_def Let_def by (rule math_round_nonneg) (rule abs_ge_zero)

lemma getNumberOfNights_same: "getNumberOfNights a a = 0"
proof -
  have "\<lfloor>1 / 2 :: rat\<rfloor> = 0" by (simp add: floor_eq_iff)
  then have "math_round 0 = 0" by (simp add: math_round_def)
  moreover have "\<bar>to_double (to_double (of_int a - of_int a) / of_int oneDay)\<bar> = 0"
    by simp
  ultimately show ?thesis by (simp only: getNumberOfNights_def Let_def)
qed

subsection \<open>Lookups and the outcomes of createBooking\<close>

lemma user_findUnique_id: "user_findUnique s i = Some u \<Longrightarrow> user_id u = i"
  by (auto simp: user_findUnique_def find_Some_iff)

lemma room_findUnique_id: "room_findUnique s i = Some r \<Longrightarrow> room_id r = i"
  by (auto simp: room_findUnique_def find_Some_iff)




lemma room_findUnique_booking_create [simp]:
  "room_findUnique (booking_create s b) i = room_findUnique s i"
  by (simp add: room_findUnique_def booking_create_def)

lemma room_findUnique_booking_update [simp]:
  "room_findUnique (booking_update s j dto c now) i = room_findUnique s i"
  by (simp add: room_findUnique_def booking_update_def)



lemma booking_findUnique_room_update [simp]:
  "booking_findUnique (room_update s j n) i = booking_findUnique s i"
  by (simp add: booking_findUnique_def room_update_def)

lemma createBooking_admitted:
  assumes "user_findUnique s uid = Some u"
    and "room_findUnique s (dto_roomId dto) = Some r"
    and "dto_numberOfRooms dto < numberAvailable r"
  shows "createBooking s newId now uid dto =
           (RequestSuccessful ''Booking created successfully'' None,
            room_update
              (booking_create s
                 \<lparr>booking_id = newId, userId = uid, roomId = dto_roomId dto,
                  hotelId = room_hotelId r,
                  checkInDate = dto_checkInDate dto, checkOutDate = dto_checkOutDate dto,
                  numberOfRooms = dto_numberOfRooms dto,
                  cost = js_times
                           (js_times (getNumberOfNights (dto_checkInDate dto) (dto_checkOutDate dto))
                              (dto_numberOfRooms dto))
                           (price r),
                  createdAt = now, updatedAt = now\<rparr>)
              (dto_roomId dto) (numberAvailable r - dto_numberOfRooms dto))"
  using assms user_findUnique_id [OF assms(1)] room_findUnique_id [OF assms(2)]
  by (simp add: createBooking_def Let_def)


lemma createBooking_success_cases:
  assumes "fst (createBooking s newId now uid dto) = RequestSuccessful m p"
  obtains u r where "user_findUnique s uid = Some u"
    and "room_findUnique s (dto_roomId dto) = Some r"
    and "dto_numberOfRooms dto < numberAvailable r"
  using assms
  by (auto simp: createBooking_def Let_def split: if_splits option.splits)

subsection \<open>What creating and deleting keep\<close>

lemma createBooking_rooms:
  "snd (createBooking s newId now uid dto) = s
   \<or> (\<exists>r. room_findUnique s (dto_roomId dto) = Some r
          \<and> dto_numberOfRooms dto < numberAvailable r
          \<and> snd (createBooking s newId now uid dto)
              = room_update
                  (booking_create s
                     \<lparr>booking_id = newId, userId = uid, roomId = dto_roomId dto,
                      hotelId = room_hotelId r,
                      checkInDate = dto_checkInDate dto, checkOutDate = dto_checkOutDate dto,
                      numberOfRooms = dto_numberOfRooms dto,
                      cost = js_times
                               (js_times (getNumberOfNights (dto_checkInDate dto) (dto_checkOutDate dto))
                                  (dto_numberOfRooms dto))
                               (price r),
                      createdAt = now, updatedAt = now\<rparr>)
                  (dto_roomId dto) (numberAvailable r - dto_numberOfRooms dto))"
proof (cases "\<exists>m p. fst (createBooking s newId now uid dto) = RequestSuccessful m p")
  case True
  then obtain m p where "fst (createBooking s newId now uid dto) = RequestSuccessful m p"
    by blast
  then obtain u r where "user_findUnique s uid = Some u"
    and "room_findUnique s (dto_roomId dto) = Some r"
    and "dto_numberOfRooms dto < numberAvailable r"
    by (rule createBooking_success_cases)
  then show ?thesis
    using createBooking_admitted [of s uid u dto r newId now] by simp
next
  case False
  then have "snd (createBooking s newId now uid dto) = s"
    by (auto simp: createBooking_def Let_def split: if_splits option.splits)
  then show ?thesis by simp
qed

lemma createBooking_keeps_availabilityNonNegative:
  assumes "availabilityNonNegative s"
  shows "availabilityNonNegative (snd (createBooking s newId now uid dto))"
  using createBooking_rooms [of s newId now uid dto] assms
  by (auto simp: availabilityNonNegative_def list_all_iff room_update_def booking_create_def)

lemma deleteBookingById_rooms: "rooms (snd (deleteBookingById s i)) = rooms s"
  by (simp add: deleteBookingById_def booking_delete_def split: option.splits)

lemma deleteAllBookings_rooms: "rooms (snd (deleteAllBookings s uid)) = rooms s"
  by (simp add: deleteAllBookings_def booking_deleteMany_def Let_def split: option.splits)

lemma bookedRooms_booking_create:
  "bookedRooms (room_update (booking_create s b) j k) i
     = bookedRooms s i + (if roomId b = i then numberOfRooms b else 0)"
  by (simp add: bookedRooms_def room_update_def booking_create_def)

lemma createBooking_keeps_ledgerHolds:
  assumes "ledgerHolds s capacity" and "distinct (map room_id (rooms s))"
  shows "ledgerHolds (snd (createBooking s newId now uid dto)) capacity"
proof -
  consider (same) "snd (createBooking s newId now uid dto) = s"
    | (booked) r where "room_findUnique s (dto_roomId dto) = Some r"
        "dto_numberOfRooms dto < numberAvailable r"
        "snd (createBooking s newId now uid dto)
           = room_update
               (booking_create s
                  \<lparr>booking_id = newId, userId = uid, roomId = dto_roomId dto,
                   hotelId = room_hotelId r,
                   checkInDate = dto_checkInDate dto, checkOutDate = dto_checkOutDate dto,
                   numberOfRooms = dto_numberOfRooms dto,
                   cost = js_times
                            (js_times (getNumberOfNights (dto_checkInDate dto) (dto_checkOutDate dto))
                               (dto_numberOfRooms dto))
                            (price r),
                   createdAt = now, updatedAt = now\<rparr>)
               (dto_roomId dto) (numberAvailable r - dto_numberOfRooms dto)"
    using createBooking_rooms [of s newId now uid dto] by blast
  then show ?thesis
  proof cases
    case same
    with assms show ?thesis by simp
  next
    case booked
    have r_in: "r \<in> set (rooms s)" and r_id: "room_id r = dto_roomId dto"
      using booked(1) by (auto simp: room_findUnique_def find_Some_iff)
    have uniq: "x = r" if "x \<in> set (rooms s)" "room_id x = dto_roomId dto" for x
      using that r_in r_id assms(2) by (metis distinct_map inj_onD)
    have old: "numberAvailable x + bookedRooms s (room_id x) = capacity (room_id x)"
      if "x \<in> set (rooms s)" for x
      using assms(1) that by (simp add: ledgerHolds_def list_all_iff)
    have rs: "rooms (snd (createBooking s newId now uid dto))
                = map (\<lambda>x. if room_id x = dto_roomId dto
                            then x\<lparr>numberAvailable :=
                                     numberAvailable r - dto_numberOfRooms dto\<rparr>
                            else x) (rooms s)"
      by (simp add: booked(3) room_update_def booking_create_def)
    have "numberAvailable y + bookedRooms (snd (createBooking s newId now uid dto)) (room_id y)
            = capacity (room_id y)"
      if y: "y \<in> set (rooms (snd (createBooking s newId now uid dto)))" for y
    proof -
      from y obtain x where x: "x \<in> set (rooms s)"
        and yx: "y = (if room_id x = dto_roomId dto
                      then x\<lparr>numberAvailable := numberAvailable r - dto_numberOfRooms dto\<rparr>
                      else x)"
        unfolding rs by auto
      show ?thesis
      proof (cases "room_id x = dto_roomId dto")
        case True
        with uniq [OF x] have "x = r" by simp
        with True yx old [OF x] show ?thesis
          by (simp add: booked(3) bookedRooms_booking_create)
      next
        case False
        with yx old [OF x] show ?thesis
          by (simp add: booked(3) bookedRooms_booking_create)
      qed
    qed
    then show ?thesis by (simp add: ledgerHolds_def list_all_iff)
  qed
qed

subsection \<open>Creating a booking\<close>






text \<open>
  Claim C10: \<^verbatim>\<open>createBooking\<close> answers with the client error
  \<^verbatim>\<open>User or room does not exist.\<close> exactly when the user is missing and the room
  exists; whenever the room is missing it answers with the server error
  \<^verbatim>\<open>Error creating booking\<close>; in all these cases the store is unchanged.
\<close>

theorem createBooking_missing_entity:
  "(fst (createBooking s newId now uid dto) = ClientError ''User or room does not exist.'')
     = (user_findUnique s uid = None \<and> room_findUnique s (dto_roomId dto) \<noteq> None)
   \<and> (room_findUnique s (dto_roomId dto) = None \<longrightarrow>
        createBooking s newId now uid dto = (ServerError ''Error creating booking'', s))
   \<and> (user_findUnique s uid = None \<or> room_findUnique s (dto_roomId dto) = None \<longrightarrow>
        snd (createBooking s newId now uid dto) = s)"
  by (auto simp: createBooking_def Let_def split: option.splits)

text \<open>Claim C10 at a concrete store: user missing, room missing, both missing.\<close>

theorem createBooking_missing_entity_witness:
  "createBooking (demo_store 5 []) ''b2'' 9 ''u7'' (demo_dto ''r1'' 1704067200000 1704326400000 2)
     = (ClientError ''User or room does not exist.'', demo_store 5 [])
   \<and> createBooking (demo_store 5 []) ''b2'' 9 ''u1'' (demo_dto ''r9'' 1704067200000 1704326400000 2)
       = (ServerError ''Error creating booking'', demo_store 5 [])
   \<and> createBooking (demo_store 5 []) ''b2'' 9 ''u7'' (demo_dto ''r9'' 1704067200000 1704326400000 2)
       = (ServerError ''Error creating booking'', demo_store 5 [])"
proof -
  have u: "user_findUnique (demo_store 5 []) ''u7'' = None"
    "user_findUnique (demo_store 5 []) ''u1'' \<noteq> None"
    by (simp_all add: demo_defs store_defs)
  have r: "room_findUnique (demo_store 5 []) (dto_roomId (demo_dto ''r9'' ci co n)) = None"
    "room_findUnique (demo_store 5 []) (dto_roomId (demo_dto ''r1'' ci co n)) \<noteq> None"
    for ci co n
    by (simp_all add: demo_defs store_defs)
  show ?thesis
    using createBooking_missing_entity [of "demo_store 5 []" "''b2''" 9 "''u7''"
        "demo_dto ''r1'' 1704067200000 1704326400000 2"]
      createBooking_missing_entity [of "demo_store 5 []" "''b2''" 9 "''u1''"
        "demo_dto ''r9'' 1704067200000 1704326400000 2"]
      createBooking_missing_entity [of "demo_store 5 []" "''b2''" 9 "''u7''"
        "demo_dto ''r9'' 1704067200000 1704326400000 2"]
      u r
    by (simp add: prod_eq_iff)
qed

text \<open>
  Claim C3: \<^verbatim>\<open>createBooking\<close> with a missing user or a missing room fails with the
  not-found client error and changes nothing. With the user present and the room missing
  the code answers with the server error of its \<^verbatim>\<open>catch\<close> block instead.
\<close>

theorem createBooking_missing_room_server_error:
  "user_findUnique (demo_store 5 []) ''u1'' = Some \<lparr>user_id = ''u1''\<rparr>
   \<and> room_findUnique (demo_store 5 []) ''r9'' = None
   \<and> createBooking (demo_store 5 []) ''b2'' 0 ''u1'' (demo_dto ''r9'' 1704067200000 1704326400000 2)
       = (ServerError ''Error creating booking'', demo_store 5 [])"
  by (simp add: createBooking_def demo_defs store_defs)

text \<open>
  Claim C7: \<^verbatim>\<open>createBooking\<close> with a check-out date that is not after the check-in date
  fails with a validation error. It does not: with the dates of the example exchanged
  (check-out three days before check-in) the booking is created, at the cost of 3 nights.
\<close>

theorem createBooking_reversed_dates_accepted:
  "dto_checkOutDate (demo_dto ''r1'' 1704326400000 1704067200000 2)
     < dto_checkInDate (demo_dto ''r1'' 1704326400000 1704067200000 2)
   \<and> createBooking (demo_store 5 []) ''b2'' 9 ''u1''
        (demo_dto ''r1'' 1704326400000 1704067200000 2)
       = (RequestSuccessful ''Booking created successfully'' None,
          demo_store 3
            [\<lparr>booking_id = ''b2'', userId = ''u1'', roomId = ''r1'', hotelId = ''h1'',
              checkInDate = 1704326400000, checkOutDate = 1704067200000,
              numberOfRooms = 2, cost = 600, createdAt = 9, updatedAt = 9\<rparr>])"
proof -
  have n: "getNumberOfNights 1704326400000 1704067200000 = 3"
    by (simp add: getNumberOfNights_div oneDay_def)
  have c: "js_times (js_times 3 2) 100 = 600"
    by (simp add: js_times_exact)
  show ?thesis
    by (simp add: createBooking_def demo_defs store_defs n c)
qed

text \<open>
  Claim C7, as the code has it: \<^verbatim>\<open>createBooking\<close> does not look at the order of the
  dates. For an existing user and room and \<open>numberOfRooms < numberAvailable\<close> it succeeds
  and stores the booking with the cost that the code computes in double precision from
  \<open>nights\<close>, \<open>numberOfRooms\<close> and the price, where \<open>nights\<close> is never negative and is 0
  for equal dates. That cost is the product \<open>nights * numberOfRooms * price\<close> whenever
  the product is below \<open>2^53\<close> in magnitude; and whenever the dates are less than \<open>2^26\<close>
  days apart, \<open>nights\<close> is their absolute difference in days rounded to the nearest
  integer, a half going up, the same for both orders of the two dates.
\<close>

theorem createBooking_dates_unchecked:
  assumes "user_findUnique s uid = Some u"
    and "room_findUnique s (dto_roomId dto) = Some r"
    and "dto_numberOfRooms dto < numberAvailable r"
  shows "fst (createBooking s newId now uid dto)
           = RequestSuccessful ''Booking created successfully'' None
         \<and> bookings (snd (createBooking s newId now uid dto))
             = bookings s @
                 [\<lparr>booking_id = newId, userId = uid, roomId = dto_roomId dto,
                   hotelId = room_hotelId r,
                   checkInDate = dto_checkInDate dto,
                   checkOutDate = dto_checkOutDate dto,
                   numberOfRooms = dto_numberOfRooms dto,
                   cost = js_times
                            (js_times
                               (getNumberOfNights (dto_checkInDate dto) (dto_checkOutDate dto))
                               (dto_numberOfRooms dto))
                            (price r),
                   createdAt = now, updatedAt = now\<rparr>]
         \<and> 0 \<le> getNumberOfNights (dto_checkInDate dto) (dto_checkOutDate dto)
         \<and> getNumberOfNights (dto_checkInDate dto) (dto_checkInDate dto) = 0
         \<and> (\<bar>getNumberOfNights (dto_checkInDate dto) (dto_checkOutDate dto)
               * dto_numberOfRooms dto * price r\<bar> < 2 ^ 53 \<longrightarrow>
              js_times
                (js_times (getNumberOfNights (dto_checkInDate dto) (dto_checkOutDate dto))
                   (dto_numberOfRooms dto))
                (price r)
                = getNumberOfNights (dto_checkInDate dto) (dto_checkOutDate dto)
                    * dto_numberOfRooms dto * price r)
         \<and> (\<bar>dto_checkInDate dto - dto_checkOutDate dto\<bar> < 2 ^ 26 * oneDay \<longrightarrow>
              getNumberOfNights (dto_checkInDate dto) (dto_checkOutDate dto)
                = \<lfloor>\<bar>rat_of_int (dto_checkInDate dto - dto_checkOutDate dto)\<bar> / of_int oneDay
                   + 1 / 2\<rfloor>
              \<and> getNumberOfNights (dto_checkInDate dto) (dto_checkOutDate dto)
                  = getNumberOfNights (dto_checkOutDate dto) (dto_checkInDate dto))"
proof -
  note ok = createBooking_admitted [OF assms]
  have "fst (createBooking s newId now uid dto)
          = RequestSuccessful ''Booking created successfully'' None"
    by (simp add: ok)
  moreover have "bookings (snd (createBooking s newId now uid dto))
          = bookings s @
              [\<lparr>booking_id = newId, userId = uid, roomId = dto_roomId dto,
                hotelId = room_hotelId r,
                checkInDate = dto_checkInDate dto,
                checkOutDate = dto_checkOutDate dto,
                numberOfRooms = dto_numberOfRooms dto,
                cost = js_times
                         (js_times
                            (getNumberOfNights (dto_checkInDate dto) (dto_checkOutDate dto))
                            (dto_numberOfRooms dto))
                         (price r),
                createdAt = now, updatedAt = now\<rparr>]"
    by (simp add: ok room_update_def booking_create_def)
  ultimately show ?thesis
    using js_times_product getNumberOfNights_exact getNumberOfNights_commute
      getNumberOfNights_nonneg [of "dto_checkInDate dto" "dto_checkOutDate dto"]
      getNumberOfNights_same [of "dto_checkInDate dto"]
    by blast
qed

text \<open>Claim C7 at a concrete store: check-out two days before check-in.\<close>

theorem createBooking_dates_unchecked_witness:
  "fst (createBooking (demo_store 5 []) ''b2'' 9 ''u1''
          (demo_dto ''r1'' 1704326400000 1704153600000 2))
     = RequestSuccessful ''Booking created successfully'' None
   \<and> getNumberOfNights 1704326400000 1704153600000 = 2
   \<and> getNumberOfNights 1704153600000 1704326400000 = 2
   \<and> bookings (snd (createBooking (demo_store 5 []) ''b2'' 9 ''u1''
                       (demo_dto ''r1'' 1704326400000 1704153600000 2)))
       = [\<lparr>booking_id = ''b2'', userId = ''u1'', roomId = ''r1'', hotelId = ''h1'',
           checkInDate = 1704326400000, checkOutDate = 1704153600000,
           numberOfRooms = 2, cost = 400, createdAt = 9, updatedAt = 9\<rparr>]"
proof -
  have u: "user_findUnique (demo_store 5 []) ''u1'' = Some \<lparr>user_id = ''u1''\<rparr>"
    by (simp add: demo_defs store_defs)
  have r: "room_findUnique (demo_store 5 [])
             (dto_roomId (demo_dto ''r1'' 1704326400000 1704153600000 2)) = Some (demo_room 5)"
    by (simp add: demo_defs store_defs)
  have lt: "dto_numberOfRooms (demo_dto ''r1'' 1704326400000 1704153600000 2)
              < numberAvailable (demo_room 5)"
    by (simp add: demo_defs)
  have d: "\<bar>dto_checkInDate (demo_dto ''r1'' 1704326400000 1704153600000 2)
             - dto_checkOutDate (demo_dto ''r1'' 1704326400000 1704153600000 2)\<bar>
             < 2 ^ 26 * oneDay"
    by (simp add: demo_dto_def oneDay_def)
  note e = createBooking_dates_unchecked [OF u r lt, where newId = "''b2''" and now = 9]
  from e d have "getNumberOfNights 1704326400000 1704153600000
                   = \<lfloor>\<bar>rat_of_int (1704326400000 - 1704153600000)\<bar> / of_int oneDay + 1 / 2\<rfloor>"
    by (simp add: demo_dto_def)
  also have "\<dots> = 2"
    by (simp add: oneDay_def floor_eq_iff)
  finally have n: "getNumberOfNights 1704326400000 1704153600000 = 2" .
  from e d n have n': "getNumberOfNights 1704153600000 1704326400000 = 2"
    by (simp add: demo_dto_def)
  from e have "js_times (js_times 2 2) 100 = 400"
    by (simp add: demo_dto_def demo_room_def n)
  with e n n' show ?thesis
    by (simp add: demo_defs)
qed

subsection \<open>Updating a booking\<close>




text \<open>
  Claim C8: no lifecycle operation makes a room's \<open>numberAvailable\<close> negative.
  \<^verbatim>\<open>updateBookingById\<close> does: raising a booking from 2 to 10 rooms on a room with 3
  available succeeds and leaves the room at \<open>3 + 2 - 10 = -5\<close>.
\<close>

theorem updateBookingById_negative_availability:
  "availabilityNonNegative (demo_store 3 [demo_booking 2])
   \<and> fst (updateBookingById (demo_store 3 [demo_booking 2]) 7 ''b1'' ''u1''
            (demo_dto ''r1'' 1704067200000 1704326400000 10))
       = RequestSuccessful ''Booking updated successfully'' None
   \<and> rooms (snd (updateBookingById (demo_store 3 [demo_booking 2]) 7 ''b1'' ''u1''
                  (demo_dto ''r1'' 1704067200000 1704326400000 10)))
       = [demo_room (- 5)]
   \<and> \<not> availabilityNonNegative
          (snd (updateBookingById (demo_store 3 [demo_booking 2]) 7 ''b1'' ''u1''
                  (demo_dto ''r1'' 1704067200000 1704326400000 10)))"
  by (simp add: updateBookingById_def availabilityNonNegative_def demo_defs store_defs)

subsection \<open>Deleting a booking\<close>

text \<open>
  Claim C2: \<^verbatim>\<open>deleteBookingById\<close> removes the booking and adds its \<open>numberOfRooms\<close>
  to the room's \<open>numberAvailable\<close>; a booking of 3 deleted from a room with 1 available
  should leave 4. The code removes the booking and leaves the room as it was, at 1.
\<close>

theorem deleteBookingById_no_credit:
  "deleteBookingById (demo_store 1 [demo_booking 3]) ''b1''
     = (RequestSuccessful ''Booking deleted successfully'' None, demo_store 1 [])
   \<and> room_findUnique (demo_store 1 []) ''r1'' = Some (demo_room 1)
   \<and> numberAvailable (demo_room 1) = 1"
  by (simp add: deleteBookingById_def demo_defs store_defs)

text \<open>
  Claim C1: for every room of capacity \<open>C\<close>, \<open>numberAvailable\<close> plus the rooms of the
  bookings on it equals \<open>C\<close> before and after every lifecycle operation that completes.
  \<^verbatim>\<open>deleteBookingById\<close> does not keep it: deleting the booking of 3 rooms from a room
  with 1 available and capacity 4 succeeds, and the equation no longer holds afterwards.
\<close>

theorem deleteBookingById_breaks_ledger:
  "ledgerHolds (demo_store 1 [demo_booking 3]) (\<lambda>rid. 4)
   \<and> fst (deleteBookingById (demo_store 1 [demo_booking 3]) ''b1'')
       = RequestSuccessful ''Booking deleted successfully'' None
   \<and> \<not> ledgerHolds (snd (deleteBookingById (demo_store 1 [demo_booking 3]) ''b1'')) (\<lambda>rid. 4)"
  by (simp add: deleteBookingById_def ledgerHolds_def bookedRooms_def demo_defs store_defs)

subsection \<open>Listing the bookings of a user\<close>

text \<open>
  Claim C9: \<^verbatim>\<open>getAllBookingsByUser\<close> answers with the client error
  \<^verbatim>\<open>User does not exist\<close> for an unknown user, with the client error
  \<^verbatim>\<open>You don't have any bookings\<close> for a user without bookings, and otherwise with the
  user's bookings, each with its hotel and room and without the properties
  \<open>hotelId\<close>, \<open>roomId\<close>, \<open>createdAt\<close>, \<open>updatedAt\<close> and \<open>userId\<close>.
\<close>

theorem getAllBookingsByUser_outcomes:
  "(user_findUnique s uid = None \<longrightarrow>
      getAllBookingsByUser s uid = ClientError ''User does not exist'')
   \<and> (user_findUnique s uid \<noteq> None \<and> booking_findMany s uid = [] \<longrightarrow>
        getAllBookingsByUser s uid = ClientError ''You don't have any bookings'')
   \<and> (user_findUnique s uid \<noteq> None \<and> booking_findMany s uid \<noteq> [] \<longrightarrow>
        (\<exists>payload.
           getAllBookingsByUser s uid
             = RequestSuccessful ''Bookings retrieved successfully'' (Some payload)
           \<and> payload
               = map (\<lambda>b. [(''id'', JString (booking_id b)),
                            (''checkInDate'', JNumber (checkInDate b)),
                            (''checkOutDate'', JNumber (checkOutDate b)),
                            (''numberOfRooms'', JNumber (numberOfRooms b)),
                            (''cost'', JNumber (cost b)),
                            (''hotel'', JHotel (hotel_findUnique s (hotelId b))),
                            (''room'', JRoom (room_findUnique s (roomId b)))])
                   (booking_findMany s uid)
           \<and> list_all (\<lambda>obj. map_of obj ''hotelId'' = None
                               \<and> map_of obj ''roomId'' = None
                               \<and> map_of obj ''createdAt'' = None
                               \<and> map_of obj ''updatedAt'' = None
                               \<and> map_of obj ''userId'' = None) payload))"
  by (auto simp: getAllBookingsByUser_def Let_def booking_object_def delete_property_def
      list_all_iff)

text \<open>Claim C9 at a concrete store: an unknown user, a user without bookings, a user with one.\<close>

theorem getAllBookingsByUser_outcomes_witness:
  "getAllBookingsByUser (demo_store 1 [demo_booking 3]) ''u7'' = ClientError ''User does not exist''
   \<and> getAllBookingsByUser (demo_store 1 [demo_booking 3]) ''u2''
       = ClientError ''You don't have any bookings''
   \<and> getAllBookingsByUser (demo_store 1 [demo_booking 3]) ''u1''
       = RequestSuccessful ''Bookings retrieved successfully''
           (Some [[(''id'', JString ''b1''),
                   (''checkInDate'', JNumber 1704067200000),
                   (''checkOutDate'', JNumber 1704326400000),
                   (''numberOfRooms'', JNumber 3),
                   (''cost'', JNumber 900),
                   (''hotel'', JHotel (Some \<lparr>hotel_id = ''h1''\<rparr>)),
                   (''room'', JRoom (Some (demo_room 1)))]])"
proof -
  have a: "user_findUnique (demo_store 1 [demo_booking 3]) ''u7'' = None"
    by (simp add: demo_defs store_defs)
  have b: "user_findUnique (demo_store 1 [demo_booking 3]) ''u2'' \<noteq> None
           \<and> booking_findMany (demo_store 1 [demo_booking 3]) ''u2'' = []"
    by (simp add: demo_defs store_defs)
  have c: "user_findUnique (demo_store 1 [demo_booking 3]) ''u1'' \<noteq> None
           \<and> booking_findMany (demo_store 1 [demo_booking 3]) ''u1'' = [demo_booking 3]"
    by (simp add: demo_defs store_defs)
  have d: "hotel_findUnique (demo_store 1 [demo_booking 3]) ''h1'' = Some \<lparr>hotel_id = ''h1''\<rparr>"
    "room_findUnique (demo_store 1 [demo_booking 3]) ''r1'' = Some (demo_room 1)"
    by (simp_all add: demo_defs store_defs)
  show ?thesis
    using getAllBookingsByUser_outcomes [of "demo_store 1 [demo_booking 3]" "''u7''"]
      getAllBookingsByUser_outcomes [of "demo_store 1 [demo_booking 3]" "''u2''"]
      getAllBookingsByUser_outcomes [of "demo_store 1 [demo_booking 3]" "''u1''"]
      a b c d
    by (auto simp: demo_booking_def)
qed

end

